theory Spec2Isabelle
  imports Main
begin

unbundle bit_operations_syntax

section \<open>Bytes and C strings\<close>

text \<open>
  A \<open>char\<close> is one byte. \<open>rd\<close> reads a NUL-terminated byte sequence at an index: the
  bytes of the list, then the terminator. (A read beyond the terminator is undefined in
  C; the model reads NUL there too, so that every function below is total.)
\<close>

abbreviation NUL :: char where "NUL \<equiv> CHR 0x00"
abbreviation ESC :: char where "ESC \<equiv> CHR 0x1B"

definition ord :: "char \<Rightarrow> nat" where
  "ord c = of_char c"

definition rd :: "char list \<Rightarrow> nat \<Rightarrow> char" where
  "rd b i = (if i < length b then b ! i else NUL)"

text \<open>The \<open>ctype.h\<close> classes in the "C" locale (the program never calls \<open>setlocale\<close>).\<close>

definition isprint :: "char \<Rightarrow> bool" where
  "isprint c = (32 \<le> ord c \<and> ord c \<le> 126)"

definition isspace :: "char \<Rightarrow> bool" where
  "isspace c = (ord c = 32 \<or> (9 \<le> ord c \<and> ord c \<le> 13))"

definition isdigit :: "char \<Rightarrow> bool" where
  "isdigit c = (48 \<le> ord c \<and> ord c \<le> 57)"

text \<open>\<open>std::to_string\<close> on a non-negative number.\<close>

fun to_string :: "nat \<Rightarrow> string" where
  "to_string n =
     (if n < 10 then [char_of (48 + n)]
      else to_string (n div 10) @ [char_of (48 + n mod 10)])"

declare to_string.simps [simp del]

text \<open>
  An element of \<open>argv\<close>: a pointer \<open>ptr\<close> into a caller-owned buffer \<open>buf\<close>. The C
  string it denotes is \<open>cstr\<close>: the bytes from the pointer up to the first NUL.
\<close>

record carg =
  buf :: "char list"
  ptr :: nat

definition cstr :: "carg \<Rightarrow> string" where
  "cstr a = takeWhile (\<lambda>c. c \<noteq> NUL) (drop (ptr a) (buf a))"

text \<open>The \<open>argv\<close> entry the operating system builds for the token \<open>s\<close>.\<close>

definition mk_arg :: "string \<Rightarrow> carg" where
  "mk_arg s = \<lparr>buf = s @ [NUL], ptr = 0\<rparr>"

section \<open>Parser::Trim\<close>

text \<open>The \<open>left_trim\<close> loop: advances the pointer over non-printable bytes and spaces.\<close>

function left_trim :: "char list \<Rightarrow> nat \<Rightarrow> nat" where
  "left_trim b p =
     (if rd b p = NUL then p
      else if \<not> isprint (rd b p) \<or> rd b p = CHR '' '' then left_trim b (p + 1)
      else p)"
  by pat_completeness auto
termination
  by (relation "measure (\<lambda>(b, p). length b - p)") (auto simp: rd_def split: if_splits)

declare left_trim.simps [simp del]

text \<open>\<open>do { end++; } while (*end != '\0')\<close>, entered with \<open>end\<close> already incremented once.\<close>

function find_end :: "char list \<Rightarrow> nat \<Rightarrow> nat" where
  "find_end b e = (if rd b e \<noteq> NUL then find_end b (e + 1) else e)"
  by pat_completeness auto
termination
  by (relation "measure (\<lambda>(b, e). length b - e)") (auto simp: rd_def split: if_splits)

declare find_end.simps [simp del]

text \<open>
  The \<open>right_trim\<close> loop. It writes NUL into the caller's buffer. Its test reads
  \<open>**str == ' '\<close> (the first byte), as the source does, not \<open>*end\<close>.
\<close>

function right_trim :: "char list \<Rightarrow> nat \<Rightarrow> nat \<Rightarrow> nat \<times> char list" where
  "right_trim b p e =
     (let e' = e - 1 in
      if \<not> isprint (rd b e') \<or> rd b p = CHR '' '' then
        (let b' = b[e' := NUL] in
         if e' > p then right_trim b' p e' else (0, b'))
      else (e' - p + 1, b))"
  by pat_completeness auto
termination
  by (relation "measure (\<lambda>(b, p, e). e)") auto

declare right_trim.simps [simp del]

definition Trim :: "carg \<Rightarrow> nat \<times> carg" where
  "Trim a =
     (let p = left_trim (buf a) (ptr a) in
      if rd (buf a) p = NUL then (0, a\<lparr>ptr := p\<rparr>)
      else
        (let e = find_end (buf a) (p + 1);
             (n, b') = right_trim (buf a) p e
         in (n, \<lparr>buf = b', ptr = p\<rparr>)))"

section \<open>Argument definitions and the accumulator\<close>

text \<open>The enum \<open>ArgumentType\<close>; \<open>Int\<close> is reserved syntax in HOL, hence the suffix.\<close>

datatype ArgumentType = StringT | IntT | DoubleT | BooleanT

datatype ArgumentClass = Argument | Option | Operand

text \<open>
  The type \<open>'d\<close> stands for C's \<open>double\<close>. The floating-point operations the code uses
  are parameters: \<open>strtod\<close> gives the value, the index where the conversion stopped and
  whether it set \<open>ERANGE\<close>; the other two are the conversions between \<open>int\<close> and
  \<open>double\<close>.
\<close>

record 'd fp =
  strtod :: "string \<Rightarrow> 'd \<times> nat \<times> bool"
  int_of_double :: "'d \<Rightarrow> int"
  double_of_int :: "int \<Rightarrow> 'd"

record 'd CommandLineArg =
  name :: string
  valueName :: string
  letter :: char
  argClass :: ArgumentClass
  argType :: ArgumentType
  optional :: bool
  stringDefault :: string
  intDefault :: int
  doubleDefault :: 'd
  description :: string

text \<open>The seven constructors of \<open>CommandLineArg\<close>, in the order of the source.\<close>

definition EmptyArg :: "'d fp \<Rightarrow> 'd CommandLineArg" where
  "EmptyArg F = \<lparr>name = [], valueName = [], letter = NUL, argClass = Argument,
     argType = StringT, optional = False, stringDefault = [], intDefault = 0,
     doubleDefault = double_of_int F 0, description = []\<rparr>"

definition OperandArg :: "'d fp \<Rightarrow> string \<Rightarrow> string \<Rightarrow> 'd CommandLineArg" where
  "OperandArg F n d = \<lparr>name = n, valueName = [], letter = NUL, argClass = Operand,
     argType = StringT, optional = False, stringDefault = [], intDefault = 0,
     doubleDefault = double_of_int F 0, description = d\<rparr>"

definition OptionArg :: "'d fp \<Rightarrow> string \<Rightarrow> char \<Rightarrow> string \<Rightarrow> 'd CommandLineArg" where
  "OptionArg F n l d = \<lparr>name = n, valueName = [], letter = l, argClass = Option,
     argType = BooleanT, optional = False, stringDefault = [], intDefault = 0,
     doubleDefault = double_of_int F 0, description = d\<rparr>"

definition MandatoryArg ::
  "'d fp \<Rightarrow> string \<Rightarrow> char \<Rightarrow> ArgumentType \<Rightarrow> string \<Rightarrow> string \<Rightarrow> 'd CommandLineArg" where
  "MandatoryArg F n l t vn d = \<lparr>name = n, valueName = vn, letter = l, argClass = Argument,
     argType = t, optional = False, stringDefault = [], intDefault = 0,
     doubleDefault = double_of_int F 0, description = d\<rparr>"

definition IntArg ::
  "'d fp \<Rightarrow> string \<Rightarrow> char \<Rightarrow> int \<Rightarrow> string \<Rightarrow> string \<Rightarrow> 'd CommandLineArg" where
  "IntArg F n l dflt vn d = \<lparr>name = n, valueName = vn, letter = l, argClass = Argument,
     argType = IntT, optional = True, stringDefault = [], intDefault = dflt,
     doubleDefault = double_of_int F 0, description = d\<rparr>"

definition StringArg ::
  "'d fp \<Rightarrow> string \<Rightarrow> char \<Rightarrow> string \<Rightarrow> string \<Rightarrow> string \<Rightarrow> 'd CommandLineArg" where
  "StringArg F n l dflt vn d = \<lparr>name = n, valueName = vn, letter = l, argClass = Argument,
     argType = StringT, optional = True, stringDefault = dflt, intDefault = 0,
     doubleDefault = double_of_int F 0, description = d\<rparr>"

definition DoubleArg ::
  "'d fp \<Rightarrow> string \<Rightarrow> char \<Rightarrow> 'd \<Rightarrow> string \<Rightarrow> string \<Rightarrow> 'd CommandLineArg" where
  "DoubleArg F n l dflt vn d = \<lparr>name = n, valueName = vn, letter = l, argClass = Argument,
     argType = DoubleT, optional = True, stringDefault = [], intDefault = 0,
     doubleDefault = dflt, description = d\<rparr>"

text \<open>
  \<open>std::map\<close> and \<open>std::unordered_map\<close> are association lists with unique keys, in order
  of insertion; \<open>find\<close> is \<open>map_of\<close>, \<open>size\<close> is \<open>length\<close>. \<open>map_insert\<close> is the
  member function \<open>insert\<close>: it adds the pair only if the key is absent, and leaves the
  stored value alone otherwise.
\<close>

definition map_insert :: "'k \<Rightarrow> 'v \<Rightarrow> ('k \<times> 'v) list \<Rightarrow> ('k \<times> 'v) list" where
  "map_insert k v m = (case map_of m k of None \<Rightarrow> m @ [(k, v)] | Some _ \<Rightarrow> m)"

record 'd ArgumentAccumulator =
  restrictOperands :: bool
  executableName :: string
  argsByName :: "(string \<times> 'd CommandLineArg) list"
  argsByLetter :: "(char \<times> 'd CommandLineArg) list"
  operands :: "'d CommandLineArg list"
  stringValues :: "(string \<times> string) list"
  intValues :: "(string \<times> int) list"
  doubleValues :: "(string \<times> 'd) list"
  optionNames :: "string set"
  operandValues :: "string list"

definition NewAccumulator :: "'d ArgumentAccumulator" where
  "NewAccumulator = \<lparr>restrictOperands = False, executableName = [], argsByName = [],
     argsByLetter = [], operands = [], stringValues = [], intValues = [],
     doubleValues = [], optionNames = {}, operandValues = []\<rparr>"

datatype error =
    DuplicateName string
  | DuplicateLetter char
  | IntegerOutOfRange
  | InvalidInteger
  | DoubleOutOfRange
  | InvalidDouble
  | InvalidArgument string
  | SyntaxError
  | InvalidArgumentLetter char
  | MultipleArguments
  | TooManyOperands nat

text \<open>The text of each \<open>std::runtime_error\<close>.\<close>

fun what :: "error \<Rightarrow> string" where
  "what (DuplicateName n) = ''Two different arguments have the same name: '' @ [CHR 0x27] @ n @ [CHR 0x27] @ ''.''"
| "what (DuplicateLetter l) =
     ''Two different arguments have the same one-letter name: '' @ [CHR 0x27] @ [l] @ [CHR 0x27] @ ''.''"
| "what IntegerOutOfRange = ''Integer value out of range.''"
| "what InvalidInteger = ''Invalid integer value.''"
| "what DoubleOutOfRange = ''Double value out of range.''"
| "what InvalidDouble = ''Invalid Double value.''"
| "what (InvalidArgument n) = ''Invalid argument: --'' @ n"
| "what SyntaxError = ''Syntax error.''"
| "what (InvalidArgumentLetter l) = ''Invalid argument letter: '' @ [CHR 0x27] @ [l] @ [CHR 0x27] @ ''.''"
| "what MultipleArguments =
     ''When multiple options are provided after a single dash, only one of them can be an argument. (Because each argument would require a separate parameter value.) Please separate the extra arguments.''"
| "what (TooManyOperands n) = ''The maximal number of operands is restricted to '' @ to_string n @ ''.''"

text \<open>
  \<open>ArgumentAccumulator::AddArg\<close>. A duplicate is an exception; the program does not
  continue with the accumulator after it, so the model returns the error alone. The
  default of an optional double goes through \<open>GetDoubleDefault\<close>, whose return type is
  \<open>int\<close>.
\<close>

definition AddArg ::
  "'d fp \<Rightarrow> 'd CommandLineArg \<Rightarrow> 'd ArgumentAccumulator \<Rightarrow> error + 'd ArgumentAccumulator" where
  "AddArg F arg a =
     (if map_of (argsByName a) (name arg) \<noteq> None then Inl (DuplicateName (name arg))
      else
        (let a1 = a\<lparr>argsByName := argsByName a @ [(name arg, arg)]\<rparr>;
             a2 = (if argClass arg = Operand then a1\<lparr>operands := operands a1 @ [arg]\<rparr> else a1)
         in if letter arg \<noteq> NUL \<and> map_of (argsByLetter a2) (letter arg) \<noteq> None
            then Inl (DuplicateLetter (letter arg))
            else
              (let a3 = (if letter arg \<noteq> NUL
                         then a2\<lparr>argsByLetter := argsByLetter a2 @ [(letter arg, arg)]\<rparr>
                         else a2)
               in Inr
                 (if optional arg then
                    (if argType arg = DoubleT then
                       a3\<lparr>doubleValues := map_insert (name arg)
                            (double_of_int F (int_of_double F (doubleDefault arg))) (doubleValues a3)\<rparr>
                     else if argType arg = IntT then
                       a3\<lparr>intValues := map_insert (name arg) (intDefault arg) (intValues a3)\<rparr>
                     else
                       a3\<lparr>stringValues := map_insert (name arg) (stringDefault arg) (stringValues a3)\<rparr>)
                  else a3))))"

section \<open>ArgumentAccumulator::SetValue\<close>

text \<open>
  \<open>strtol\<close> in base 10 where \<open>long\<close> has 64 bits: white space, an optional sign, digits.
  The result is the value, the index at which the conversion stopped (\<open>endPtr\<close>) and
  whether \<open>errno\<close> was set to \<open>ERANGE\<close>. Without a digit nothing is converted: the value
  is 0 and \<open>endPtr\<close> is the start of the string.
\<close>

definition ERANGE :: int where
  "ERANGE = 34"

definition LONG_MAX :: int where
  "LONG_MAX = 2 ^ 63 - 1"

definition LONG_MIN :: int where
  "LONG_MIN = - (2 ^ 63)"

definition decimal :: "string \<Rightarrow> int" where
  "decimal ds = foldl (\<lambda>v c. 10 * v + (int (ord c) - 48)) 0 ds"

definition strtol :: "string \<Rightarrow> int \<times> nat \<times> bool" where
  "strtol s =
     (let ws = length (takeWhile isspace s);
          r = drop ws s;
          neg = (rd r 0 = CHR ''-'');
          sg = (if rd r 0 = CHR ''-'' \<or> rd r 0 = CHR ''+'' then 1 else 0);
          ds = takeWhile isdigit (drop sg r);
          v = (if neg then - decimal ds else decimal ds)
      in if ds = [] then (0, 0, False)
         else if v > LONG_MAX then (LONG_MAX, ws + sg + length ds, True)
         else if v < LONG_MIN then (LONG_MIN, ws + sg + length ds, True)
         else (v, ws + sg + length ds, False))"

text \<open>The conversion of the \<open>long\<close> to \<open>int\<close> (32 bits, two's complement).\<close>

definition int_of_long :: "int \<Rightarrow> int" where
  "int_of_long v = (v + 2 ^ 31) mod 2 ^ 32 - 2 ^ 31"

text \<open>
  \<open>SetValue\<close> reads and may set the global \<open>errno\<close>, which it never clears: the model
  takes it and returns it. The values are stored with \<open>insert\<close>.
\<close>

definition SetValue ::
  "'d fp \<Rightarrow> 'd CommandLineArg \<Rightarrow> string \<Rightarrow> int \<Rightarrow> 'd ArgumentAccumulator
     \<Rightarrow> int \<times> (error + 'd ArgumentAccumulator)" where
  "SetValue F arg v en a =
     (if argType arg = IntT then
        (case strtol v of (l, endPtr, erange) \<Rightarrow>
           (let en' = (if erange then ERANGE else en);
                result = int_of_long l
            in if en' = ERANGE then (en', Inl IntegerOutOfRange)
               else if rd v endPtr \<noteq> NUL \<or> en' \<noteq> 0 then (en', Inl InvalidInteger)
               else (en', Inr (a\<lparr>intValues := map_insert (name arg) result (intValues a)\<rparr>))))
      else if argType arg = DoubleT then
        (case strtod F v of (result, endPtr, erange) \<Rightarrow>
           (let en' = (if erange then ERANGE else en)
            in if en' = ERANGE then (en', Inl DoubleOutOfRange)
               else if rd v endPtr \<noteq> NUL \<or> en' \<noteq> 0 then (en', Inl InvalidDouble)
               else (en', Inr (a\<lparr>doubleValues := map_insert (name arg) result (doubleValues a)\<rparr>))))
      else (en, Inr (a\<lparr>stringValues := map_insert (name arg) v (stringValues a)\<rparr>)))"

section \<open>Arguments::IsHelpRequested\<close>

definition IsHelpRequested :: "'d ArgumentAccumulator \<Rightarrow> bool" where
  "IsHelpRequested a =
     (if length (operands a) < 1 \<and> optionNames a = {} \<and> length (argsByName a) < 1 then True
      else if ''help'' \<in> optionNames a then True
      else False)"

section \<open>Parser::Parse\<close>

text \<open>
  The parser object. \<open>argc\<close> is the length of \<open>argv\<close>; the constructor sets
  \<open>screenWidth\<close> to 80.
\<close>

record 'd Parser =
  argv :: "carg list"
  accu :: "'d ArgumentAccumulator"
  screenWidth :: nat

definition NewParser :: "carg list \<Rightarrow> 'd Parser" where
  "NewParser av = \<lparr>argv = av, accu = NewAccumulator, screenWidth = 80\<rparr>"

definition RestrictOperands :: "'d ArgumentAccumulator \<Rightarrow> 'd ArgumentAccumulator" where
  "RestrictOperands a = a\<lparr>restrictOperands := True\<rparr>"

text \<open>\<open>Parser::AddOperand\<close>.\<close>

definition AddOperand :: "string \<Rightarrow> 'd ArgumentAccumulator \<Rightarrow> error + 'd ArgumentAccumulator" where
  "AddOperand v a =
     (if length (operandValues a) > length (operands a) \<and> restrictOperands a
      then Inl (TooManyOperands (length (operands a)))
      else Inr (a\<lparr>operandValues := operandValues a @ [v]\<rparr>))"

text \<open>
  The local variables of \<open>Parse\<close> that live across iterations, and the global \<open>errno\<close>.
  \<open>line\<close> is the string stream of the reconstructed command line; its \<open>tellp()\<close> is
  its length.
\<close>

record 'd frame =
  expectArgValue :: bool
  lastArg :: "'d CommandLineArg"
  line :: string
  errno :: int

text \<open>
  The inner loop over the letters after a single dash. \<open>i\<close> is the index of the letter
  in the token. An exception comes with the amount added to \<open>position\<close> before the
  throw: \<open>i\<close> for an unknown letter, nothing for a second argument letter.
\<close>

fun letters ::
  "char list \<Rightarrow> nat \<Rightarrow> bool \<Rightarrow> 'd frame \<Rightarrow> 'd ArgumentAccumulator
     \<Rightarrow> (error \<times> nat) option \<times> 'd frame \<times> 'd ArgumentAccumulator" where
  "letters [] i foundArgument fr a = (None, fr, a)"
| "letters (c # cs) i foundArgument fr a =
     (case map_of (argsByLetter a) c of
        None \<Rightarrow> (Some (InvalidArgumentLetter c, i), fr, a)
      | Some item \<Rightarrow>
          if argClass item = Option then
            letters cs (i + 1) foundArgument fr (a\<lparr>optionNames := insert (name item) (optionNames a)\<rparr>)
          else if foundArgument then (Some (MultipleArguments, 0), fr, a)
          else letters cs (i + 1) True (fr\<lparr>lastArg := item, expectArgValue := True\<rparr>) a)"

text \<open>
  The body of the \<open>try\<close> block for one token: \<open>len\<close> is what \<open>Trim\<close> returned,
  \<open>arg\<close> the trimmed token. The result is the exception, if one is thrown (with the
  amount added to \<open>position\<close>), and the variables as they are then.
\<close>

definition Parse_token ::
  "'d fp \<Rightarrow> nat \<Rightarrow> string \<Rightarrow> 'd frame \<Rightarrow> 'd ArgumentAccumulator
     \<Rightarrow> (error \<times> nat) option \<times> 'd frame \<times> 'd ArgumentAccumulator" where
  "Parse_token F len arg fr a =
     (if len = 0 then (None, fr, a)
      else if expectArgValue fr then
        (case SetValue F (lastArg fr) arg (errno fr) a of
           (en, Inl e) \<Rightarrow> (Some (e, 0), fr\<lparr>errno := en\<rparr>, a)
         | (en, Inr a') \<Rightarrow> (None, fr\<lparr>errno := en, expectArgValue := False\<rparr>, a'))
      else if rd arg 0 = CHR ''-'' then
        (if len > 1 then
           (if rd arg 1 = CHR ''-'' then
              (if len > 2 then
                 (let argName = drop 2 arg in
                  case map_of (argsByName a) argName of
                    None \<Rightarrow> (Some (InvalidArgument argName, 0), fr, a)
                  | Some item \<Rightarrow>
                      if argClass item = Option
                      then (None, fr, a\<lparr>optionNames := insert argName (optionNames a)\<rparr>)
                      else (None, fr\<lparr>expectArgValue := True, lastArg := item\<rparr>, a))
               else (Some (SyntaxError, 0), fr, a))
            else letters (map (rd arg) [1..<len]) 1 False fr a)
         else
           (case AddOperand arg a of
              Inl e \<Rightarrow> (Some (e, 0), fr, a)
            | Inr a' \<Rightarrow> (None, fr, a')))
      else
        (case AddOperand arg a of
           Inl e \<Rightarrow> (Some (e, 0), fr, a)
         | Inr a' \<Rightarrow> (None, fr, a')))"

text \<open>Appending a token to \<open>line\<close>, with a space before it unless the line is empty.\<close>

definition append_token :: "string \<Rightarrow> string \<Rightarrow> string" where
  "append_token l arg = (if length l > 0 then l @ '' '' @ arg else l @ arg)"

text \<open>The loop of the \<open>catch\<close> block: the tokens after the failing one are trimmed and appended.\<close>

fun catch_rest :: "carg list \<Rightarrow> string \<Rightarrow> carg list \<times> string" where
  "catch_rest [] l = ([], l)"
| "catch_rest (a # as) l =
     (let a' = snd (Trim a);
          (as', l') = catch_rest as (append_token l (cstr a'))
      in (a' # as', l'))"

text \<open>
  What \<open>Parse\<close> hands to \<open>ThrowError\<close>: the exception caught, the reconstructed line
  and the position.
\<close>

record failure =
  err :: error
  fline :: string
  fposition :: nat

text \<open>
  The outer loop, from index \<open>i\<close> on, over the entries not yet visited. The result is the
  failure, if any, the entries as the loop leaves them, and the variables.
\<close>

fun Parse_loop ::
  "'d fp \<Rightarrow> nat \<Rightarrow> carg list \<Rightarrow> 'd frame \<Rightarrow> 'd ArgumentAccumulator
     \<Rightarrow> failure option \<times> carg list \<times> 'd frame \<times> 'd ArgumentAccumulator" where
  "Parse_loop F i [] fr a = (None, [], fr, a)"
| "Parse_loop F i (x # xs) fr a =
     (let position = length (line fr);
          (len, x') = Trim x;
          arg = cstr x';
          fr1 = fr\<lparr>line := append_token (line fr) arg\<rparr>
      in if i = 0 then
           (case Parse_loop F (i + 1) xs fr1 (a\<lparr>executableName := arg\<rparr>) of
              (r, xs', st) \<Rightarrow> (r, x' # xs', st))
         else
           (case Parse_token F len arg fr1 a of
              (None, fr2, a2) \<Rightarrow>
                (case Parse_loop F (i + 1) xs fr2 a2 of
                   (r, xs', st) \<Rightarrow> (r, x' # xs', st))
            | (Some (e, k), fr2, a2) \<Rightarrow>
                (case catch_rest xs (line fr2) of
                   (xs', l') \<Rightarrow>
                     (Some \<lparr>err = e, fline = l', fposition = position + k\<rparr>,
                      x' # xs', fr2\<lparr>line := l'\<rparr>, a2))))"

text \<open>
  The loop of \<open>Parse\<close> on the whole of \<open>argv\<close>, started with \<open>errno\<close> equal to
  \<open>en\<close>, and the flag \<open>expectArgValue\<close> as the loop leaves it.
\<close>

definition Parse_run ::
  "'d fp \<Rightarrow> int \<Rightarrow> 'd Parser
     \<Rightarrow> failure option \<times> carg list \<times> 'd frame \<times> 'd ArgumentAccumulator" where
  "Parse_run F en P =
     Parse_loop F 0 (argv P)
       \<lparr>expectArgValue = False, lastArg = EmptyArg F, line = [], errno = en\<rparr> (accu P)"


text \<open>
  \<open>Parse\<close>. Without a failure it returns \<open>Arguments(this->accu)\<close>, the accumulator of
  the parser returned here; with a failure it throws what \<open>ThrowError\<close> renders.
\<close>

definition Parse :: "'d fp \<Rightarrow> int \<Rightarrow> 'd Parser \<Rightarrow> failure option \<times> 'd Parser" where
  "Parse F en P =
     (case Parse_run F en P of (r, av, fr, a) \<Rightarrow> (r, P\<lparr>argv := av, accu := a\<rparr>))"

section \<open>Parser::ThrowError\<close>

text \<open>
  \<open>maxHead\<close> is \<open>(int)(0.666f * (float)windowSize)\<close>, a product of two \<open>float\<close>s
  (IEEE single precision, 24 significant bits, round to nearest, ties to even), cut to
  an integer. \<open>round24\<close> rounds a number that is not negative to 24 significant bits; \<open>0.666f\<close> is
  11173626 / 2^24; so the product is \<open>round24 (11173626 * round24 windowSize) / 2^24\<close>.
  (The width is not negative. For the width 80 of the constructor the result is 53.)
\<close>

function bitlen :: "int \<Rightarrow> nat" where
  "bitlen n = (if n \<le> 0 then 0 else Suc (bitlen (n div 2)))"
  by pat_completeness auto
termination
  by (relation "measure nat") auto

declare bitlen.simps [simp del]

definition round24 :: "int \<Rightarrow> int" where
  "round24 n =
     (let s = bitlen n - 24; q = n div 2 ^ s; r = n mod 2 ^ s
      in if 2 * r > 2 ^ s \<or> (2 * r = 2 ^ s \<and> odd q) then (q + 1) * 2 ^ s else q * 2 ^ s)"

definition maxHead :: "int \<Rightarrow> int" where
  "maxHead windowSize = round24 (11173626 * round24 windowSize) div 2 ^ 24"

text \<open>The window: \<open>start\<close>, \<open>head\<close> and \<open>length\<close>.\<close>

definition window :: "int \<Rightarrow> int \<Rightarrow> int \<Rightarrow> int \<times> int \<times> int" where
  "window windowSize sz position =
     (let maxTail = windowSize - maxHead windowSize in
      if position < maxHead windowSize \<or> sz < windowSize then (0, position, min windowSize sz)
      else if sz - position < maxTail then (sz - windowSize, position - (sz - windowSize), windowSize)
      else (position - maxHead windowSize, maxHead windowSize, windowSize))"

text \<open>
  The text of the exception. \<open>substr\<close> with a start after the end and a string of
  negative length are other exceptions (\<open>None\<close>).
\<close>

definition ThrowError :: "nat \<Rightarrow> string \<Rightarrow> string \<Rightarrow> nat \<Rightarrow> string option" where
  "ThrowError sw message ln position =
     (case window (int sw) (int (length ln)) (int position) of
        (start, head, len) \<Rightarrow>
          if start < 0 \<or> start > int (length ln) \<or> len < 0 \<or> head + 1 < 0
             \<or> int sw - head - 2 < 0 then None
          else Some
            (ESC # ''[33m'' @ replicate sw CHR ''-'' @ ESC # ''[0m'' @ [CHR 0x0A]
             @ ESC # ''[31m'' @ message @ ESC # ''[0m'' @ [CHR 0x0A, CHR 0x0A]
             @ take (nat len) (drop (nat start) ln) @ [CHR 0x0A]
             @ replicate (nat (head + 1)) CHR '' '' @ ESC # ''[1m'' @ ESC # ''[37m'' @ ''^'' @ [CHR 0x0A]
             @ ESC # ''[33m'' @ replicate (nat (head + 1)) CHR ''-'' @ ESC # ''[1m'' @ ESC # ''[37m'' @ ''|''
             @ ESC # ''[33m'' @ replicate (nat (int sw - head - 2)) CHR ''-'' @ ESC # ''[0m''))"

text \<open>The column of the caret in the line under the window, and the byte of \<open>line\<close> above it.\<close>

definition caret_column :: "nat \<Rightarrow> string \<Rightarrow> nat \<Rightarrow> int" where
  "caret_column sw ln position =
     (case window (int sw) (int (length ln)) (int position) of (start, head, len) \<Rightarrow> head + 1)"

definition caret_byte :: "nat \<Rightarrow> string \<Rightarrow> nat \<Rightarrow> int" where
  "caret_byte sw ln position =
     (case window (int sw) (int (length ln)) (int position) of (start, head, len) \<Rightarrow> start + head + 1)"

section \<open>Parser::FormatLine\<close>

text \<open>The non-breaking space of the source, \<open>'\035'\<close>.\<close>

abbreviation NBSP :: char where "NBSP \<equiv> CHR 0x1D"

text \<open>
  The variables of \<open>FormatLine\<close>: the reference parameters \<open>cursor\<close> and
  \<open>textAttribute\<close>, the locals, and \<open>out\<close>, the bytes appended to the stream.
\<close>

record fl =
  cursor :: nat
  textAttribute :: nat
  out :: string
  charCount :: nat
  mb_remain :: nat
  lastWord :: string
  lastWordCharCount :: nat
  foundSoftHyphen :: bool
  lastWordPosition :: nat
  textAttributeWasSetInLastWord :: bool

text \<open>How one iteration of the \<open>for\<close> loop ends: \<open>continue\<close> (or the end of the body),
  \<open>return\<close>, or \<open>goto fill_remainder_with_spaces\<close>.\<close>

datatype flow = Continue fl | Return fl | Fill fl

definition breaker :: "char \<Rightarrow> bool" where
  "breaker c = ((\<not> isprint c \<or> c = CHR '' '') \<and> c \<noteq> NBSP)"

definition valid_escape :: "string \<Rightarrow> nat \<Rightarrow> bool" where
  "valid_escape text i =
     (i + 3 < length text \<and> rd text (i + 1) = CHR ''['' \<and> rd text (i + 3) = CHR ''m''
      \<and> ord (rd text (i + 2)) \<ge> 48 \<and> ord (rd text (i + 2)) \<le> 56
      \<and> ord (rd text (i + 2)) \<noteq> 51 \<and> ord (rd text (i + 2)) \<noteq> 54)"

definition FormatLine_body :: "string \<Rightarrow> nat \<Rightarrow> char \<Rightarrow> fl \<Rightarrow> flow" where
  "FormatLine_body text limit softHypen s0 =
     (let c = rd text (cursor s0) in
      if mb_remain s0 > 0 \<and> ord c AND 0xC0 = 0x80 then
        Continue (s0\<lparr>mb_remain := mb_remain s0 - 1, lastWord := lastWord s0 @ [c]\<rparr>)
      else
        (let s = (if mb_remain s0 > 0 then s0\<lparr>mb_remain := 0\<rparr> else s0) in
         if charCount s + lastWordCharCount s + 1 > limit then
           (if c \<noteq> softHypen \<and> (\<not> isprint c \<or> c = CHR '' '') \<and> c \<noteq> NBSP then
              Return (s\<lparr>out := out s @ lastWord s, charCount := charCount s + lastWordCharCount s\<rparr>)
            else if lastWordPosition s = 0 then
              Return (s\<lparr>out := out s @ lastWord s, charCount := charCount s + lastWordCharCount s\<rparr>)
            else
              Fill (s\<lparr>out := (if foundSoftHyphen s then out s @ ''-'' else out s),
                      cursor := lastWordPosition s\<rparr>))
         else if ord c AND 0xE0 = 0xC0 then
           Continue (s\<lparr>mb_remain := 1, lastWord := lastWord s @ [c],
                       lastWordCharCount := lastWordCharCount s + 1\<rparr>)
         else if ord c AND 0xF0 = 0xE0 then
           Continue (s\<lparr>mb_remain := 2, lastWord := lastWord s @ [c],
                       lastWordCharCount := lastWordCharCount s + 1\<rparr>)
         else if ord c AND 0xF8 = 0xF0 then
           Continue (s\<lparr>mb_remain := 3, lastWord := lastWord s @ [c],
                       lastWordCharCount := lastWordCharCount s + 1\<rparr>)
         else if c = ESC \<and> valid_escape text (cursor s) then
           (let v = ord (rd text (cursor s + 2)) - 48 in
            Continue (s\<lparr>textAttribute := (if textAttributeWasSetInLastWord s then textAttribute s else v),
                        textAttributeWasSetInLastWord := True,
                        lastWord := lastWord s @ ESC # ''['' @ to_string v @ ''m'',
                        cursor := cursor s + 3\<rparr>))
         else if softHypen \<noteq> NUL \<and> c = softHypen then
           Continue (s\<lparr>foundSoftHyphen := True, lastWordPosition := cursor s,
                       charCount := charCount s + lastWordCharCount s, lastWordCharCount := 0,
                       out := out s @ lastWord s, lastWord := [],
                       textAttributeWasSetInLastWord := False\<rparr>)
         else if (\<not> isprint c \<or> c = CHR '' '') \<and> c \<noteq> NBSP then
           Continue (s\<lparr>foundSoftHyphen := False, lastWordPosition := cursor s,
                       charCount := charCount s + lastWordCharCount s, lastWordCharCount := 1,
                       out := out s @ lastWord s, lastWord := '' '',
                       textAttributeWasSetInLastWord := False\<rparr>)
         else
           Continue (s\<lparr>lastWord := lastWord s @ [if c = NBSP then CHR '' '' else c],
                       lastWordCharCount := lastWordCharCount s + 1\<rparr>)))"

text \<open>The label \<open>fill_remainder_with_spaces\<close>.\<close>

definition fill_remainder :: "nat \<Rightarrow> fl \<Rightarrow> fl" where
  "fill_remainder limit s =
     (if limit > charCount s then s\<lparr>out := out s @ replicate (limit - charCount s) CHR '' ''\<rparr> else s)"

text \<open>The \<open>for\<close> loop and what follows it.\<close>

function FormatLine_loop :: "string \<Rightarrow> nat \<Rightarrow> char \<Rightarrow> fl \<Rightarrow> fl" where
  "FormatLine_loop text limit softHypen s =
     (if cursor s < length text then
        (case FormatLine_body text limit softHypen s of
           Continue s' \<Rightarrow> FormatLine_loop text limit softHypen (s'\<lparr>cursor := cursor s' + 1\<rparr>)
         | Return s' \<Rightarrow> s'
         | Fill s' \<Rightarrow> fill_remainder limit s')
      else
        fill_remainder limit
          (s\<lparr>out := out s @ lastWord s, charCount := charCount s + lastWordCharCount s\<rparr>))"
  by pat_completeness auto
termination
proof (relation "measure (\<lambda>(text, limit, softHypen, s). length text - cursor s)")
  show "wf (measure (\<lambda>(text, limit, softHypen, s). length text - cursor s))"
    by simp
next
  fix t :: string and limit :: nat and softHypen :: char and s s' :: fl
  assume lt: "cursor s < length t"
    and body: "FormatLine_body t limit softHypen s = Continue s'"
  from body have "cursor s \<le> cursor s'"
    by (auto simp: FormatLine_body_def Let_def split: if_splits)
  with lt show "((t, limit, softHypen, s'\<lparr>cursor := cursor s' + 1\<rparr>), (t, limit, softHypen, s))
      \<in> measure (\<lambda>(text, limit, softHypen, s). length text - cursor s)"
    by simp
qed

declare FormatLine_loop.simps [simp del]

text \<open>The left-trim loop at the start of \<open>FormatLine\<close>.\<close>

function skip_left :: "string \<Rightarrow> nat \<Rightarrow> nat" where
  "skip_left text i =
     (if i < length text \<and> (\<not> isprint (rd text i) \<or> rd text i = CHR '' '') \<and> rd text i \<noteq> ESC
      then skip_left text (i + 1) else i)"
  by pat_completeness auto
termination
  by (relation "measure (\<lambda>(text, i). length text - i)") auto

declare skip_left.simps [simp del]

text \<open>\<open>FormatLine\<close>: the new cursor, the new text attribute and the bytes written.\<close>

definition FormatLine :: "string \<Rightarrow> nat \<Rightarrow> nat \<Rightarrow> char \<Rightarrow> nat \<Rightarrow> nat \<times> nat \<times> string" where
  "FormatLine text cur limit softHypen attr =
     (let s = FormatLine_loop text limit softHypen
                \<lparr>cursor = skip_left text cur, textAttribute = attr,
                   out = ESC # ''['' @ to_string attr @ ''m'',
                   charCount = 0, mb_remain = 0, lastWord = [], lastWordCharCount = 0,
                   foundSoftHyphen = False, lastWordPosition = 0,
                   textAttributeWasSetInLastWord = False\<rparr>
      in (cursor s, textAttribute s, out s))"

text \<open>
  The visible columns of a line of output: an attribute sequence \<open>ESC [ d m\<close> counts 0,
  a continuation byte of UTF-8 counts 0, every other byte counts 1.
\<close>

fun visible :: "string \<Rightarrow> nat" where
  "visible (e # b # d # m # cs) =
     (if e = ESC \<and> b = CHR ''['' \<and> m = CHR ''m'' \<and> isdigit d then visible cs
      else (if ord e AND 0xC0 = 0x80 then 0 else 1) + visible (b # d # m # cs))"
| "visible (c # cs) = (if ord c AND 0xC0 = 0x80 then 0 else 1) + visible cs"
| "visible [] = 0"

section \<open>The output loop of Parser::ColumnFormat\<close>

text \<open>
  A column while the text is written: its text, its width (which \<open>ColumnFormat\<close>
  computes by floating-point rounding, and which is given here), its paddings, its
  cursor and its text attribute.
\<close>

record column =
  ctext :: string
  cwidth :: nat
  leftPadding :: nat
  rightPadding :: nat
  ccursor :: nat
  cattr :: nat

text \<open>One pass of the inner \<open>for\<close> loop: the columns after it, the bytes written and
  the number of columns found at their end.\<close>

fun ColumnFormat_row :: "char \<Rightarrow> column list \<Rightarrow> column list \<times> string \<times> nat" where
  "ColumnFormat_row softHyphen [] = ([], [], 0)"
| "ColumnFormat_row softHyphen (c # cs) =
     (let lp = replicate (leftPadding c) CHR '' '';
          rp = replicate (rightPadding c) CHR '' '';
          (c', mid, t) =
            (if ccursor c \<ge> length (ctext c) then (c, replicate (cwidth c) CHR '' '', 1)
             else (case FormatLine (ctext c) (ccursor c) (cwidth c) softHyphen (cattr c) of
                     (cur, attr, o') \<Rightarrow> (c\<lparr>ccursor := cur, cattr := attr\<rparr>, o', 0)));
          (cs', rest, ts) = ColumnFormat_row softHyphen cs
      in (c' # cs', lp @ mid @ rp @ rest, t + ts))"

text \<open>The \<open>while (true)\<close> loop; \<open>None\<close> when it does not end.\<close>

partial_function (option) ColumnFormat_rows :: "char \<Rightarrow> column list \<Rightarrow> string \<Rightarrow> string option" where
  "ColumnFormat_rows softHyphen cols buff =
     (case ColumnFormat_row softHyphen cols of
        (cols', s, terminated) \<Rightarrow>
          if terminated \<ge> length cols then Some (buff @ s @ [CHR 0x0A])
          else ColumnFormat_rows softHyphen cols' (buff @ s @ [CHR 0x0A]))"

section \<open>Example programs\<close>

text \<open>Registering definitions one after the other; the first exception ends the setup.\<close>

fun AddArgs ::
  "'d fp \<Rightarrow> 'd CommandLineArg list \<Rightarrow> 'd ArgumentAccumulator \<Rightarrow> error + 'd ArgumentAccumulator" where
  "AddArgs F [] a = Inr a"
| "AddArgs F (d # ds) a = (case AddArg F d a of Inl e \<Rightarrow> Inl e | Inr a' \<Rightarrow> AddArgs F ds a')"

text \<open>
  Floating-point operations for programs that register no argument of type double:
  \<open>strtod\<close> converts nothing.
\<close>

definition no_doubles :: "unit fp" where
  "no_doubles = \<lparr>strtod = (\<lambda>s. ((), 0, False)), int_of_double = (\<lambda>d. 0), double_of_int = (\<lambda>n. ())\<rparr>"

text \<open>
  The program of the end-to-end example: \<open>host\<close> (string, \<open>h\<close>, default 127.0.0.1),
  \<open>port\<close> (int, \<open>p\<close>, default 50000), the operand \<open>database\<close>, \<open>RestrictOperands()\<close>;
  then \<open>Parse\<close> on the tokens, with \<open>errno\<close> 0.
\<close>

definition example_args :: "'d fp \<Rightarrow> 'd CommandLineArg list" where
  "example_args F =
     [StringArg F ''host'' CHR ''h'' ''127.0.0.1'' ''host_name'' ''The host name or IP address.'',
      IntArg F ''port'' CHR ''p'' 50000 ''port'' ''The port.'',
      OperandArg F ''database'' ''The name of the database to connect to.'']"

definition example_parser :: "'d fp \<Rightarrow> string list \<Rightarrow> error + 'd Parser" where
  "example_parser F tokens =
     (case AddArgs F (example_args F) NewAccumulator of
        Inl e \<Rightarrow> Inl e
      | Inr a \<Rightarrow> Inr ((NewParser (map mk_arg tokens))\<lparr>accu := RestrictOperands a\<rparr>))"

definition example_parse :: "'d fp \<Rightarrow> string list \<Rightarrow> error + failure option \<times> 'd Parser" where
  "example_parse F tokens =
     (case example_parser F tokens of Inl e \<Rightarrow> Inl e | Inr P \<Rightarrow> Inr (Parse F 0 P))"

text \<open>A program with the option \<open>help\<close> of \<open>main.cpp\<close> and one mandatory argument.\<close>

definition help_parser :: "'d fp \<Rightarrow> string list \<Rightarrow> error + 'd Parser" where
  "help_parser F tokens =
     (case AddArgs F
             [OptionArg F ''help'' CHR ''?'' ''Display the usage instructions.'',
              MandatoryArg F ''user'' CHR ''u'' StringT ''user_name'' ''User name for the database login.'']
             NewAccumulator of
        Inl e \<Rightarrow> Inl e
      | Inr a \<Rightarrow> Inr ((NewParser (map mk_arg tokens))\<lparr>accu := a\<rparr>))"

text \<open>A program whose only argument has the dash as its letter.\<close>

definition dash_arg :: "'d fp \<Rightarrow> 'd CommandLineArg" where
  "dash_arg F = MandatoryArg F ''stdin'' CHR ''-'' StringT ''file'' ''Read the input from a file.''"

definition dash_parser :: "'d fp \<Rightarrow> string list \<Rightarrow> error + 'd Parser" where
  "dash_parser F tokens =
     (case AddArgs F [dash_arg F] NewAccumulator of
        Inl e \<Rightarrow> Inl e
      | Inr a \<Rightarrow> Inr ((NewParser (map mk_arg tokens))\<lparr>accu := a\<rparr>))"

text \<open>
  One column of width 3 with the text \<open>ab|cdefg\<close> (a call of \<open>ColumnFormat\<close> with one
  column of weight 1, the paddings 77 and 0 and the soft hyphen \<open>|\<close>), at a cursor.
\<close>

definition narrow_column :: "nat \<Rightarrow> column" where
  "narrow_column cur = \<lparr>ctext = ''ab|cdefg'', cwidth = 3, leftPadding = 77, rightPadding = 0,
     ccursor = cur, cattr = 0\<rparr>"

text \<open>The parts of the accumulator that \<open>Parse\<close> only reads.\<close>

definition registry ::
  "'d ArgumentAccumulator \<Rightarrow>
     (string \<times> 'd CommandLineArg) list \<times> (char \<times> 'd CommandLineArg) list
       \<times> 'd CommandLineArg list \<times> bool" where
  "registry a = (argsByName a, argsByLetter a, operands a, restrictOperands a)"

section \<open>Properties of Trim\<close>


lemma right_trim_rec:
  "\<not> isprint (rd b (e - 1)) \<or> rd b p = CHR '' '' \<Longrightarrow> p < e - 1 \<Longrightarrow>
   right_trim b p e = right_trim (b[e - 1 := NUL]) p (e - 1)"
  by (subst right_trim.simps) (simp add: Let_def)


lemma right_trim_keep:
  "isprint (rd b (e - 1)) \<Longrightarrow> rd b p \<noteq> CHR '' '' \<Longrightarrow> right_trim b p e = (e - 1 - p + 1, b)"
  by (subst right_trim.simps) (simp add: Let_def)




lemma rd_append_NUL_lt: "i < length s \<Longrightarrow> rd (s @ [NUL]) i = s ! i"
  by (simp add: rd_def nth_append)

lemma rd_append_NUL_end: "rd (s @ [NUL]) (length s) = NUL"
  by (simp add: rd_def)

lemma find_end_terminator:
  "NUL \<notin> set s \<Longrightarrow> e \<le> length s \<Longrightarrow> find_end (s @ [NUL]) e = length s"
proof (induction "length s - e" arbitrary: e)
  case 0
  then have "e = length s" by simp
  then show ?case
    by (subst find_end.simps) (simp add: rd_append_NUL_end)
next
  case (Suc k)
  then have lt: "e < length s" by simp
  with Suc.prems have "rd (s @ [NUL]) e \<noteq> NUL"
    by (metis rd_append_NUL_lt nth_mem)
  then have "find_end (s @ [NUL]) e = find_end (s @ [NUL]) (e + 1)"
    by (subst find_end.simps) simp
  also from Suc lt have "\<dots> = length s" by simp
  finally show ?case .
qed

lemma cstr_mk_arg: "NUL \<notin> set s \<Longrightarrow> cstr (mk_arg s) = s"
  by (simp add: cstr_def mk_arg_def takeWhile_append takeWhile_eq_all_conv)

text \<open>
  A token that starts with a printable byte other than the space and ends with a
  printable byte is left as it is.
\<close>

lemma Trim_id:
  assumes "s \<noteq> []" "NUL \<notin> set s" "isprint (hd s)" "hd s \<noteq> CHR '' ''" "isprint (last s)"
  shows "Trim (mk_arg s) = (length s, mk_arg s)"
proof -
  from assms have hd: "rd (s @ [NUL]) 0 = hd s"
    by (simp add: rd_def hd_conv_nth nth_append)
  from assms have hd_nz: "hd s \<noteq> NUL"
    by (metis hd_in_set)
  from assms hd hd_nz have lt: "left_trim (s @ [NUL]) 0 = 0"
    by (subst left_trim.simps) simp
  from assms have fe: "find_end (s @ [NUL]) (Suc 0) = length s"
    by (intro find_end_terminator) (simp_all add: Suc_leI)
  from assms have "length s - 1 < length s" by simp
  then have "rd (s @ [NUL]) (length s - 1) = s ! (length s - 1)"
    by (rule rd_append_NUL_lt)
  with assms have "rd (s @ [NUL]) (length s - 1) = last s"
    by (simp add: last_conv_nth)
  with assms hd have rt: "right_trim (s @ [NUL]) 0 (length s) = (length s, s @ [NUL])"
    by (simp add: right_trim_keep)
  show ?thesis
    using lt fe rt hd hd_nz by (simp add: Trim_def mk_arg_def Let_def)
qed

lemma Trim_long:
  assumes "n \<noteq> []" "NUL \<notin> set n" "isprint (last n)"
  shows "Trim (mk_arg (''--'' @ n)) = (length (''--'' @ n), mk_arg (''--'' @ n))"
    and "cstr (mk_arg (''--'' @ n)) = ''--'' @ n"
  using assms by (simp_all add: Trim_id cstr_mk_arg isprint_def ord_def del: append.simps)

lemma Trim_short:
  assumes "isprint l"
  shows "Trim (mk_arg [CHR ''-'', l]) = (length [CHR ''-'', l], mk_arg [CHR ''-'', l])"
    and "cstr (mk_arg [CHR ''-'', l]) = [CHR ''-'', l]"
proof -
  from assms have "l \<noteq> NUL" by (auto simp: isprint_def ord_def)
  with assms show "Trim (mk_arg [CHR ''-'', l]) = (length [CHR ''-'', l], mk_arg [CHR ''-'', l])"
    and "cstr (mk_arg [CHR ''-'', l]) = [CHR ''-'', l]"
    by (simp_all add: Trim_id cstr_mk_arg isprint_def ord_def)
qed

text \<open>\<open>Trim\<close> returns the length of the string it leaves.\<close>

lemma left_trim_stop:
  "rd b (left_trim b p) = NUL
   \<or> (isprint (rd b (left_trim b p)) \<and> rd b (left_trim b p) \<noteq> CHR '' '')"
proof (induction b p rule: left_trim.induct)
  case (1 b p)
  show ?case
  proof (cases "rd b p \<noteq> NUL \<and> (\<not> isprint (rd b p) \<or> rd b p = CHR '' '')")
    case True
    then have "left_trim b p = left_trim b (p + 1)"
      by (subst left_trim.simps) simp
    with 1 True show ?thesis by simp
  next
    case False
    then have "left_trim b p = p"
      by (subst left_trim.simps) auto
    with False show ?thesis by auto
  qed
qed

lemma find_end_props:
  "e \<le> find_end b e \<and> rd b (find_end b e) = NUL
   \<and> (\<forall>k. e \<le> k \<and> k < find_end b e \<longrightarrow> rd b k \<noteq> NUL)"
proof (induction b e rule: find_end.induct)
  case (1 b e)
  show ?case
  proof (cases "rd b e \<noteq> NUL")
    case True
    then have eq: "find_end b e = find_end b (e + 1)"
      by (subst find_end.simps) simp
    from 1 [OF True] have ih: "e + 1 \<le> find_end b (e + 1)" "rd b (find_end b (e + 1)) = NUL"
      "\<forall>k. e + 1 \<le> k \<and> k < find_end b (e + 1) \<longrightarrow> rd b k \<noteq> NUL"
      by blast+
    have "rd b k \<noteq> NUL" if "e \<le> k" "k < find_end b (e + 1)" for k
    proof (cases "k = e")
      case True
      with \<open>rd b e \<noteq> NUL\<close> show ?thesis by simp
    next
      case False
      with that have "e + 1 \<le> k" by simp
      with ih(3) that show ?thesis by blast
    qed
    with ih(1,2) show ?thesis
      unfolding eq by auto
  next
    case False
    then have "find_end b e = e"
      by (subst find_end.simps) simp
    with False show ?thesis by auto
  qed
qed

lemma cstr_length:
  "p \<le> e \<Longrightarrow> \<forall>k. p \<le> k \<and> k < e \<longrightarrow> rd b k \<noteq> NUL \<Longrightarrow> rd b e = NUL \<Longrightarrow>
   length (takeWhile (\<lambda>c. c \<noteq> NUL) (drop p b)) = e - p"
proof (induction "e - p" arbitrary: p)
  case 0
  then have "p = e" by simp
  with 0 show ?case
    by (cases "drop e b") (auto simp: rd_def hd_drop_conv_nth split: if_splits
        dest: arg_cong [where f = hd])
next
  case (Suc n)
  then have lt: "p < e" by simp
  with Suc.prems have nz: "rd b p \<noteq> NUL" by simp
  then have pl: "p < length b" by (auto simp: rd_def split: if_splits)
  then have d: "drop p b = b ! p # drop (Suc p) b"
    by (simp add: Cons_nth_drop_Suc)
  from nz pl have "b ! p \<noteq> NUL" by (simp add: rd_def)
  moreover from Suc lt have "length (takeWhile (\<lambda>c. c \<noteq> NUL) (drop (Suc p) b)) = e - Suc p"
    by (intro Suc.hyps(1)) auto
  ultimately show ?case using lt by (simp add: d)
qed

lemma right_trim_cstr:
  "p < e \<Longrightarrow> \<forall>k. p \<le> k \<and> k < e \<longrightarrow> rd b k \<noteq> NUL \<Longrightarrow> rd b e = NUL \<Longrightarrow>
   isprint (rd b p) \<Longrightarrow> rd b p \<noteq> CHR '' '' \<Longrightarrow>
   fst (right_trim b p e) = length (takeWhile (\<lambda>c. c \<noteq> NUL) (drop p (snd (right_trim b p e))))
   \<and> 0 < fst (right_trim b p e)"
proof (induction b p e rule: right_trim.induct)
  case (1 b p e)
  consider (rec) "\<not> isprint (rd b (e - 1))" "p < e - 1"
    | (empty) "\<not> isprint (rd b (e - 1))" "\<not> p < e - 1"
    | (keep) "isprint (rd b (e - 1))"
    by blast
  then show ?case
  proof cases
    case rec
    let ?b = "b[e - 1 := NUL]"
    from 1(3) rec have "rd b (e - 1) \<noteq> NUL" by simp
    then have el: "e - 1 < length b" by (auto simp: rd_def split: if_splits)
    have same: "rd ?b k = rd b k" if "k \<noteq> e - 1" for k
      using that by (simp add: rd_def)
    have a: "\<forall>k. p \<le> k \<and> k < e - 1 \<longrightarrow> rd ?b k \<noteq> NUL"
    proof (intro allI impI)
      fix k assume k: "p \<le> k \<and> k < e - 1"
      then have "k \<noteq> e - 1" "k < e" by auto
      with k 1(3) same [of k] show "rd ?b k \<noteq> NUL" by simp
    qed
    have b: "rd ?b (e - 1) = NUL"
      using el by (simp add: rd_def)
    from rec(2) have "p \<noteq> e - 1" by simp
    from same [OF this] 1(5,6) have c: "isprint (rd ?b p)" "rd ?b p \<noteq> CHR '' ''"
      by simp_all
    from rec have cond: "\<not> isprint (rd b (e - 1)) \<or> rd b p = CHR '' ''" by simp
    from 1(1) [OF refl cond refl rec(2) rec(2) a b c]
    show ?thesis
      unfolding right_trim_rec [OF cond rec(2)] .
  next
    case empty
    with 1(2) have "e - 1 = p" by simp
    with empty 1(5) show ?thesis by simp
  next
    case keep
    from 1(2) have "p \<le> e" by simp
    from cstr_length [OF this 1(3) 1(4)] 1(2)
    show ?thesis
      unfolding right_trim_keep [OF keep 1(6)] by simp
  qed
qed

lemma Trim_len: "fst (Trim a) = length (cstr (snd (Trim a)))"
proof -
  let ?b = "buf a"
  let ?p = "left_trim ?b (ptr a)"
  show ?thesis
  proof (cases "rd ?b ?p = NUL")
    case True
    have "\<forall>k. ?p \<le> k \<and> k < ?p \<longrightarrow> rd ?b k \<noteq> NUL" by auto
    from cstr_length [OF le_refl this True]
    have "length (takeWhile (\<lambda>c. c \<noteq> NUL) (drop ?p ?b)) = 0" by simp
    with True show ?thesis
      by (simp add: Trim_def cstr_def)
  next
    case False
    let ?e = "find_end ?b (?p + 1)"
    from find_end_props [of "?p + 1" ?b]
    have fe: "?p + 1 \<le> ?e" "rd ?b ?e = NUL" "\<forall>k. ?p + 1 \<le> k \<and> k < ?e \<longrightarrow> rd ?b k \<noteq> NUL"
      by blast+
    from fe(1) have lt: "?p < ?e" by simp
    have nz: "\<forall>k. ?p \<le> k \<and> k < ?e \<longrightarrow> rd ?b k \<noteq> NUL"
    proof (intro allI impI)
      fix k assume "?p \<le> k \<and> k < ?e"
      then show "rd ?b k \<noteq> NUL"
        using False fe(3) by (cases "k = ?p") auto
    qed
    from left_trim_stop [of ?b "ptr a"] False
    have pr: "isprint (rd ?b ?p)" "rd ?b ?p \<noteq> CHR '' ''" by auto
    from right_trim_cstr [OF lt nz fe(2) pr] False
    show ?thesis
      by (simp add: Trim_def cstr_def Let_def split_beta)
  qed
qed




section \<open>Properties of the loop of Parse\<close>




lemma SetValue_registry: "SetValue F d v en a = (en', Inr a') \<Longrightarrow> registry a' = registry a"
  by (auto simp: SetValue_def registry_def Let_def split: if_splits prod.splits)

lemma AddOperand_registry: "AddOperand v a = Inr a' \<Longrightarrow> registry a' = registry a"
  by (auto simp: AddOperand_def registry_def split: if_splits)

lemma letters_registry: "letters cs i found fr a = (r, fr', a') \<Longrightarrow> registry a' = registry a"
proof (induction cs arbitrary: i found fr a)
  case Nil
  then show ?case by simp
next
  case (Cons c cs)
  then show ?case
    by (fastforce simp: registry_def split: option.splits if_splits)
qed

lemma Parse_token_registry:
  "Parse_token F len arg fr a = (r, fr', a') \<Longrightarrow> registry a' = registry a"
  by (auto simp: Parse_token_def Let_def split: if_splits prod.splits sum.splits option.splits
      dest: SetValue_registry AddOperand_registry letters_registry)
     (simp_all add: registry_def)

lemma Parse_loop_registry:
  "Parse_loop F i xs fr a = (r, xs', fr', a') \<Longrightarrow> registry a' = registry a"
proof (induction xs arbitrary: i fr a r xs' fr' a')
  case Nil
  then show ?case by simp
next
  case (Cons x xs)
  have exe: "registry (b\<lparr>executableName := n\<rparr>) = registry b" for b :: "'a ArgumentAccumulator" and n
    by (simp add: registry_def)
  from Cons.prems show ?case
    by (auto simp: Let_def exe split: option.splits prod.splits if_splits
        dest!: Cons.IH Parse_token_registry)
qed

lemma Parse_registry: "registry (accu (snd (Parse F en P))) = registry (accu P)"
  by (auto simp: Parse_def Parse_run_def split: prod.splits dest: Parse_loop_registry)


lemma Parse_token_long:
  assumes "n \<noteq> []" "map_of (argsByName a) n = Some d" "argClass d \<noteq> Option"
    "\<not> expectArgValue fr"
  shows "Parse_token F (length (''--'' @ n)) (''--'' @ n) fr a =
    (None, fr\<lparr>expectArgValue := True, lastArg := d\<rparr>, a)"
  using assms by (simp add: Parse_token_def rd_def)

lemma Parse_token_short:
  assumes "l \<noteq> CHR ''-''" "map_of (argsByLetter a) l = Some d" "argClass d \<noteq> Option"
    "\<not> expectArgValue fr"
  shows "Parse_token F (length [CHR ''-'', l]) [CHR ''-'', l] fr a =
    (None, fr\<lparr>lastArg := d, expectArgValue := True\<rparr>, a)"
  using assms by (simp add: Parse_token_def rd_def)

lemma Parse_token_value:
  "expectArgValue fr \<Longrightarrow> Parse_token F len arg fr a =
     (if len = 0 then (None, fr, a)
      else (case SetValue F (lastArg fr) arg (errno fr) a of
              (en, Inl e) \<Rightarrow> (Some (e, 0), fr\<lparr>errno := en\<rparr>, a)
            | (en, Inr a') \<Rightarrow> (None, fr\<lparr>errno := en, expectArgValue := False\<rparr>, a')))"
  by (simp add: Parse_token_def)

text \<open>Failures and the reconstructed line.\<close>

lemma letters_error:
  "letters cs i found fr a = (Some (e, k), fr', a') \<Longrightarrow>
   k = 0 \<or> (\<exists>j < length cs. k = i + j \<and> e = InvalidArgumentLetter (cs ! j))"
proof (induction cs arbitrary: i found fr a)
  case Nil
  then show ?case by simp
next
  case (Cons c cs)
  show ?case
  proof (cases "map_of (argsByLetter a) c")
    case None
    with Cons.prems show ?thesis by auto
  next
    case (Some item)
    consider (opt) "argClass item = Option"
      | (second) "argClass item \<noteq> Option" "found"
      | (first) "argClass item \<noteq> Option" "\<not> found"
      by blast
    then show ?thesis
    proof cases
      case opt
      with Cons.prems Some have "letters cs (i + 1) found fr
          (a\<lparr>optionNames := insert (name item) (optionNames a)\<rparr>) = (Some (e, k), fr', a')"
        by simp
      from Cons.IH [OF this] show ?thesis by auto
    next
      case second
      with Cons.prems Some show ?thesis by simp
    next
      case first
      with Cons.prems Some have "letters cs (i + 1) True
          (fr\<lparr>lastArg := item, expectArgValue := True\<rparr>) a = (Some (e, k), fr', a')"
        by simp
      from Cons.IH [OF this] show ?thesis by auto
    qed
  qed
qed

lemma letters_line: "letters cs i found fr a = (r, fr', a') \<Longrightarrow> line fr' = line fr"
proof (induction cs arbitrary: i found fr a)
  case Nil
  then show ?case by simp
next
  case (Cons c cs)
  then show ?case
    by (fastforce split: option.splits if_splits)
qed

lemma Parse_token_line: "Parse_token F len arg fr a = (r, fr', a') \<Longrightarrow> line fr' = line fr"
  by (auto simp: Parse_token_def Let_def split: if_splits prod.splits sum.splits option.splits
      dest: letters_line)

lemma Parse_token_error:
  assumes "Parse_token F len arg fr a = (Some (e, k), fr', a')"
  shows "0 < len \<and> (k = 0 \<or> (k < len \<and> e = InvalidArgumentLetter (rd arg k)))"
proof (cases "\<not> expectArgValue fr \<and> rd arg 0 = CHR ''-'' \<and> 1 < len \<and> rd arg 1 \<noteq> CHR ''-''")
  case True
  with assms have "letters (map (rd arg) [1..<len]) 1 False fr a = (Some (e, k), fr', a')"
    by (simp add: Parse_token_def)
  from letters_error [OF this] True show ?thesis
    by auto
next
  case False
  with assms show ?thesis
    by (auto simp: Parse_token_def Let_def split: if_splits prod.splits sum.splits option.splits)
qed

lemma catch_rest_line: "catch_rest xs l = (xs', l') \<Longrightarrow> \<exists>post. l' = l @ post"
proof (induction xs arbitrary: l xs' l')
  case Nil
  then show ?case by simp
next
  case (Cons x xs)
  then obtain ys where "catch_rest xs (append_token l (cstr (snd (Trim x)))) = (ys, l')"
    by (auto simp: Let_def split: prod.splits)
  from Cons.IH [OF this] show ?case
    by (auto simp: append_token_def split: if_splits)
qed

text \<open>
  Where the line is not empty, a failure comes from one token \<open>x\<close>: the tokens before
  it are parsed without an exception, the body of the \<open>try\<close> block throws on \<open>x\<close>, the
  line is the line so far, a space, the token and the tokens after it, and the position
  is the length of the line so far, plus the index of the letter when the letter is not
  registered.
\<close>

lemma Parse_loop_caret:
  "Parse_loop F i xs fr a = (Some f, xs', fr', a') \<Longrightarrow> 0 < i \<Longrightarrow> line fr \<noteq> [] \<Longrightarrow>
   \<exists>ys x zs ys' fr1 a1 k post.
     xs = ys @ x # zs
     \<and> Parse_loop F i ys fr a = (None, ys', fr1, a1)
     \<and> fst (Parse_token F (fst (Trim x)) (cstr (snd (Trim x)))
            (fr1\<lparr>line := append_token (line fr1) (cstr (snd (Trim x)))\<rparr>) a1) = Some (err f, k)
     \<and> fline f = line fr1 @ '' '' @ cstr (snd (Trim x)) @ post
     \<and> fposition f = length (line fr1) + k
     \<and> k < length (cstr (snd (Trim x)))
     \<and> (k = 0 \<or> err f = InvalidArgumentLetter (cstr (snd (Trim x)) ! k))"
proof (induction xs arbitrary: i fr a xs')
  case Nil
  then show ?case by simp
next
  case (Cons x xs)
  let ?arg = "cstr (snd (Trim x))"
  let ?fr1 = "fr\<lparr>line := append_token (line fr) ?arg\<rparr>"
  from Cons.prems(3) have l1: "line ?fr1 = line fr @ '' '' @ ?arg"
    by (simp add: append_token_def)
  obtain r2 fr2 a2 where tok: "Parse_token F (fst (Trim x)) ?arg ?fr1 a = (r2, fr2, a2)"
    by (metis prod_cases3)
  from Parse_token_line [OF tok] l1 have l2: "line fr2 = line fr @ '' '' @ ?arg"
    by simp
  show ?case
  proof (cases r2)
    case None
    obtain r1 ys fr3 a3 where run: "Parse_loop F (i + 1) xs fr2 a2 = (r1, ys, fr3, a3)"
      by (metis prod_cases4)
    with Cons.prems(1,2) tok None have "r1 = Some f" "fr3 = fr'" "a3 = a'"
      by (simp_all add: Let_def split_beta)
    with run have rec: "Parse_loop F (i + 1) xs fr2 a2 = (Some f, ys, fr', a')"
      by simp
    from l2 have "line fr2 \<noteq> []" by simp
    from Cons.IH [OF rec _ this] obtain ys0 x0 zs ys0' fr1 a1 k post where
      ih: "xs = ys0 @ x0 # zs"
        "Parse_loop F (i + 1) ys0 fr2 a2 = (None, ys0', fr1, a1)"
        "fst (Parse_token F (fst (Trim x0)) (cstr (snd (Trim x0)))
            (fr1\<lparr>line := append_token (line fr1) (cstr (snd (Trim x0)))\<rparr>) a1) = Some (err f, k)"
        "fline f = line fr1 @ '' '' @ cstr (snd (Trim x0)) @ post"
        "fposition f = length (line fr1) + k"
        "k < length (cstr (snd (Trim x0)))"
        "k = 0 \<or> err f = InvalidArgumentLetter (cstr (snd (Trim x0)) ! k)"
      by auto
    from Cons.prems(2) tok None ih(2)
    have pre: "Parse_loop F i (x # ys0) fr a = (None, snd (Trim x) # ys0', fr1, a1)"
      by (simp add: Let_def split_beta)
    from ih(1) have "x # xs = (x # ys0) @ x0 # zs" by simp
    with pre ih(3-7) show ?thesis by blast
  next
    case (Some ek)
    then obtain e k where ek: "r2 = Some (e, k)" by (cases ek) auto
    obtain ys l' where cr: "catch_rest xs (line fr2) = (ys, l')"
      by (metis prod.exhaust)
    from Cons.prems(1,2) tok ek cr have f: "f = \<lparr>err = e, fline = l', fposition = length (line fr) + k\<rparr>"
      by (auto simp: Let_def split_beta split: prod.splits)
    from catch_rest_line [OF cr] l2 obtain post where l': "l' = line fr @ '' '' @ ?arg @ post"
      by auto
    from Parse_token_error [OF tok [unfolded ek]] Trim_len [of x]
    have k: "k < length ?arg" "k = 0 \<or> e = InvalidArgumentLetter (?arg ! k)"
      by (auto simp: rd_def)
    have a0: "x # xs = [] @ x # xs" "Parse_loop F i [] fr a = (None, [], fr, a)"
      by simp_all
    from tok ek f have t: "fst (Parse_token F (fst (Trim x)) ?arg ?fr1 a) = Some (err f, k)"
      by simp
    from f l' have "fline f = line fr @ '' '' @ ?arg @ post" "fposition f = length (line fr) + k"
      by simp_all
    with a0 t k f show ?thesis by fastforce
  qed
qed

lemma window_caret_byte: "caret_byte sw ln position = int position + 1"
  by (simp add: caret_byte_def window_def Let_def)

lemma maxHead_80: "maxHead 80 = 53"
  by code_simp

text \<open>
  At the width 80 the window holds the caret: the column of the caret is inside the slice
  of the line that is printed, whenever a byte of the line follows the position.
\<close>

lemma window_holds_caret:
  assumes "position + 1 < length ln"
    and "window 80 (int (length ln)) (int position) = (start, head, len)"
  shows "0 \<le> start \<and> 0 \<le> head \<and> start + head = int position
    \<and> head + 1 < min len (int (length ln) - start) \<and> len \<le> 80"
  using assms by (auto simp: window_def maxHead_80 Let_def split: if_splits)

text \<open>
  With a program name that \<open>Trim\<close> does not empty, every failure comes from one token
  of \<open>argv\<close>, and the caret stands under the first byte of this token in the line, or
  under its letter that is not registered.
\<close>

lemma Parse_caret:
  assumes fail: "fst (Parse F en P) = Some f"
    and argv: "argv P = p0 # rest"
    and prog: "cstr (snd (Trim p0)) \<noteq> []"
  shows "\<exists>ys x zs av fr1 a1 k post.
     rest = ys @ x # zs
     \<and> Parse_run F en (P\<lparr>argv := p0 # ys\<rparr>) = (None, av, fr1, a1)
     \<and> fst (Parse_token F (fst (Trim x)) (cstr (snd (Trim x)))
            (fr1\<lparr>line := append_token (line fr1) (cstr (snd (Trim x)))\<rparr>) a1) = Some (err f, k)
     \<and> fline f = line fr1 @ '' '' @ cstr (snd (Trim x)) @ post
     \<and> k < length (cstr (snd (Trim x)))
     \<and> caret_byte (screenWidth P) (fline f) (fposition f) = int (length (line fr1) + 1 + k)
     \<and> (k = 0 \<or> err f = InvalidArgumentLetter (cstr (snd (Trim x)) ! k))"
proof -
  let ?fr0 = "\<lparr>expectArgValue = False, lastArg = EmptyArg F, line = [], errno = en\<rparr>"
  let ?arg = "cstr (snd (Trim p0))"
  let ?fr = "?fr0\<lparr>line := append_token (line ?fr0) ?arg\<rparr>"
  let ?a = "(accu P)\<lparr>executableName := ?arg\<rparr>"
  obtain r ys fr' a' where rec: "Parse_loop F (0 + 1) rest ?fr ?a = (r, ys, fr', a')"
    by (metis prod_cases4)
  with fail argv have "r = Some f"
    by (simp add: Parse_def Parse_run_def Let_def split_beta)
  with rec have run: "Parse_loop F (0 + 1) rest ?fr ?a = (Some f, ys, fr', a')"
    by simp
  from prog have ne: "line ?fr \<noteq> []"
    by (simp add: append_token_def)
  from Parse_loop_caret [OF run _ ne] obtain ys0 x zs ys0' fr1 a1 k post where
    c: "rest = ys0 @ x # zs"
      "Parse_loop F (0 + 1) ys0 ?fr ?a = (None, ys0', fr1, a1)"
      "fst (Parse_token F (fst (Trim x)) (cstr (snd (Trim x)))
          (fr1\<lparr>line := append_token (line fr1) (cstr (snd (Trim x)))\<rparr>) a1) = Some (err f, k)"
      "fline f = line fr1 @ '' '' @ cstr (snd (Trim x)) @ post"
      "fposition f = length (line fr1) + k"
      "k < length (cstr (snd (Trim x)))"
      "k = 0 \<or> err f = InvalidArgumentLetter (cstr (snd (Trim x)) ! k)"
    by auto
  from c(2) have "Parse_run F en (P\<lparr>argv := p0 # ys0\<rparr>) = (None, snd (Trim p0) # ys0', fr1, a1)"
    by (simp add: Parse_run_def Let_def split_beta)
  moreover from c(5)
  have "caret_byte (screenWidth P) (fline f) (fposition f) = int (length (line fr1) + 1 + k)"
    by (simp add: window_caret_byte)
  ultimately show ?thesis
    using c(1,3,4,6,7) by blast
qed

section \<open>The claims\<close>

text \<open>
  Claim C1. In the end-to-end example (host with default 127.0.0.1, port with default
  50000, the operand database, restricted operands), parsing
  \<open>prog -h 10.0.0.1 -p 5432 mydb\<close> should leave host = 10.0.0.1 and port = 5432.
  The code parses the line without a failure, collects the operand and does not ask for
  help, but it keeps both defaults: \<open>SetValue\<close> stores with \<open>insert\<close>, which does
  nothing when the name already has a value, and \<open>AddArg\<close> has stored the default.
\<close>

theorem C1_example_keeps_defaults:
  "case example_parse F [''prog'', ''-h'', ''10.0.0.1'', ''-p'', ''5432'', ''mydb''] of
     Inl e \<Rightarrow> False
   | Inr (r, P) \<Rightarrow>
       r = None
       \<and> map_of (stringValues (accu P)) ''host'' = Some ''127.0.0.1''
       \<and> map_of (intValues (accu P)) ''port'' = Some 50000
       \<and> operandValues (accu P) = [''mydb'']
       \<and> IsHelpRequested (accu P) = False"
  by code_simp

text \<open>
  Claim C2. Every line that \<open>FormatLine\<close> emits should have exactly \<open>limit\<close> visible
  columns. On the text \<open>ab|cd\<close> with the soft hyphen \<open>|\<close> and the limit 3 the line
  breaks at the soft hyphen: the code writes the hyphen without counting it and then
  pads up to the limit, so the line has 4 visible columns.
\<close>

theorem C2_soft_hyphen_line_too_wide:
  "FormatLine ''ab|cd'' 0 3 (CHR ''|'') 0 = (2, 0, ESC # ''[0mab- '')
   \<and> visible (ESC # ''[0mab- '') = 4"
  by code_simp

text \<open>The loop of \<open>ColumnFormat\<close> on the narrow column: the second row repeats for ever.\<close>

lemma narrow_row_first:
  "ColumnFormat_row (CHR ''|'') [narrow_column 0]
     = ([narrow_column 2], replicate 77 CHR '' '' @ ESC # ''[0mab- '', 0)"
  by code_simp

lemma narrow_row_stuck:
  "ColumnFormat_row (CHR ''|'') [narrow_column 2]
     = ([narrow_column 2], replicate 77 CHR '' '' @ ESC # ''[0m-   '', 0)"
  by code_simp

lemma narrow_column_forever: "ColumnFormat_rows (CHR ''|'') [narrow_column 2] buff = None"
proof (cases "ColumnFormat_rows (CHR ''|'') [narrow_column 2] buff")
  case None
  then show ?thesis .
next
  case (Some y)
  have "\<not> (CHR ''|'' = CHR ''|'' \<and> [narrow_column 2] = [narrow_column 2])"
  proof (rule ColumnFormat_rows.raw_induct
      [where P = "\<lambda>sh cols b y. \<not> (sh = CHR ''|'' \<and> cols = [narrow_column 2])", OF _ Some])
    fix rows :: "char \<Rightarrow> column list \<Rightarrow> string \<Rightarrow> string option"
      and sh :: char and cols :: "column list" and b y :: string
    assume IH: "\<And>sh cols b y. rows sh cols b = Some y
        \<Longrightarrow> \<not> (sh = CHR ''|'' \<and> cols = [narrow_column 2])"
      and step: "(case ColumnFormat_row sh cols of
          (cols', s, terminated) \<Rightarrow>
            if length cols \<le> terminated then Some (b @ s @ [CHR 0x0A])
            else rows sh cols' (b @ s @ [CHR 0x0A])) = Some y"
    show "\<not> (sh = CHR ''|'' \<and> cols = [narrow_column 2])"
    proof
      assume "sh = CHR ''|'' \<and> cols = [narrow_column 2]"
      with step have "rows (CHR ''|'') [narrow_column 2]
          (b @ (replicate 77 CHR '' '' @ ESC # ''[0m-   '') @ [CHR 0x0A]) = Some y"
        by (simp only: narrow_row_stuck prod.case list.size) simp
      from IH [OF this] show False by simp
    qed
  qed
  then show ?thesis by simp
qed

text \<open>
  Claim C3. A call of \<open>FormatLine\<close> with the cursor before the end of the text should
  advance the cursor, and the loop of \<open>ColumnFormat\<close> should end. With the text
  \<open>ab|cdefg\<close>, the soft hyphen \<open>|\<close> and the width 3, the first line ends at the soft
  hyphen (cursor 2); from there the word after the hyphen does not fit, the code goes
  back to the hyphen, and the cursor stays at 2: the loop of \<open>ColumnFormat\<close> never ends.
\<close>

theorem C3_cursor_stuck_at_soft_hyphen:
  "FormatLine ''ab|cdefg'' 2 3 (CHR ''|'') 0 = (2, 0, ESC # ''[0m-   '')
   \<and> ColumnFormat_rows (CHR ''|'') [narrow_column 0] [] = None"
proof -
  have "FormatLine ''ab|cdefg'' 2 3 (CHR ''|'') 0 = (2, 0, ESC # ''[0m-   '')"
    by code_simp
  moreover have "ColumnFormat_rows (CHR ''|'') [narrow_column 0] [] = None"
    by (subst ColumnFormat_rows.simps)
       (simp add: narrow_row_first narrow_column_forever del: ColumnFormat_row.simps)
  ultimately show ?thesis ..
qed

lemma cursor_stuck_at_stray_escape:
  "FormatLine (''x'' @ [ESC] @ ''abcdef'') 1 3 NUL 0 = (1, 0, ESC # ''[0m   '')"
  by code_simp

text \<open>
  Claim C4. With restricted operands and one declared operand, two positional tokens
  should fail with the too-many-operands error. \<open>AddOperand\<close> compares with \<open>>\<close>:
  it rejects a token only when more operands than declared are already collected. The
  example program accepts \<open>prog a b\<close> and collects both; the error comes with the
  third token.
\<close>

theorem C4_second_operand_accepted:
  "case example_parse F [''prog'', ''a'', ''b''] of
     Inl e \<Rightarrow> False
   | Inr (r, P) \<Rightarrow>
       r = None \<and> operandValues (accu P) = [''a'', ''b'']
       \<and> length (operands (accu P)) = 1 \<and> restrictOperands (accu P) = True"
  by code_simp

lemma example_third_operand_rejected:
  "case example_parse F [''prog'', ''a'', ''b'', ''c''] of
     Inl e \<Rightarrow> False
   | Inr (r, P) \<Rightarrow> map_option err r = Some (TooManyOperands 1)"
  by code_simp

lemma example_one_operand_accepted:
  "case example_parse F [''prog'', ''a''] of
     Inl e \<Rightarrow> False
   | Inr (r, P) \<Rightarrow> r = None \<and> operandValues (accu P) = [''a'']"
  by code_simp

text \<open>
  Claim C5. The caret of the diagnostic should stand under the first byte of the
  offending token. \<open>ThrowError\<close> prints the caret after \<open>head + 1\<close> spaces, the one
  more for the space that \<open>Parse\<close> writes before a token; \<open>Parse\<close> writes no space
  when the line is still empty. With an empty program name the line is \<open>--zzz\<close>, the
  offending token starts at byte 0, and the caret stands under byte 1. (With a program
  name that \<open>Trim\<close> does not empty the caret stands under the first byte of the
  failing token, or under the letter that is not registered, \<open>Parse_caret\<close>, and at
  the width 80 the window holds it, \<open>window_holds_caret\<close>.)
\<close>

theorem C5_caret_after_empty_program_name:
  "case example_parse F ['''', ''--zzz''] of
     Inl e \<Rightarrow> False
   | Inr (r, P) \<Rightarrow>
       r = Some \<lparr>err = InvalidArgument ''zzz'', fline = ''--zzz'', fposition = 0\<rparr>
       \<and> caret_byte (screenWidth P) ''--zzz'' 0 = 1
       \<and> caret_column (screenWidth P) ''--zzz'' 0 = 1"
  by code_simp

text \<open>
  Claim C6. A value token for an integer argument should be stored or rejected with one
  of the two integer errors. The two examples of the claim hold, and those are the only
  errors. But a value that \<open>strtol\<close> accepts is not stored when the name already has a
  value, as the default of an optional argument: \<open>--port 5432\<close> leaves the port of
  the example program at 50000. And \<open>strtol\<close> returns a \<open>long\<close> that is assigned to an
  \<open>int\<close>: 4294967296 is accepted and stored as 0.
\<close>

theorem C6_accepted_integer_not_stored:
  "case example_parse F [''prog'', ''--port'', ''5432''] of
     Inl e \<Rightarrow> False
   | Inr (r, P) \<Rightarrow> r = None \<and> map_of (intValues (accu P)) ''port'' = Some 50000"
  by code_simp

lemma example_invalid_integer:
  "case example_parse F [''prog'', ''--port'', ''abc''] of
     Inl e \<Rightarrow> False
   | Inr (r, P) \<Rightarrow> map_option err r = Some InvalidInteger"
  by code_simp

lemma example_integer_out_of_range:
  "case example_parse F [''prog'', ''--port'', ''99999999999999999999''] of
     Inl e \<Rightarrow> False
   | Inr (r, P) \<Rightarrow> map_option err r = Some IntegerOutOfRange"
  by code_simp

lemma integer_narrowed:
  "case SetValue F (MandatoryArg F ''port'' CHR ''p'' IntT ''port'' ''The port.'')
          ''4294967296'' 0 NewAccumulator of
     (en, Inr a) \<Rightarrow> intValues a = [(''port'', 0)]
   | (en, Inl e) \<Rightarrow> False"
  by code_simp

lemma map_insert_present: "map_of m k = Some v0 \<Longrightarrow> map_insert k v m = m"
  by (simp add: map_insert_def)

lemma map_insert_absent: "map_of m k = None \<Longrightarrow> map_of (map_insert k v m) k = Some v"
  by (simp add: map_insert_def map_add_def)

lemma SetValue_integer_outcomes:
  assumes "argType d = IntT"
  shows "snd (SetValue F d v en a) = Inl IntegerOutOfRange
    \<or> snd (SetValue F d v en a) = Inl InvalidInteger
    \<or> snd (SetValue F d v en a)
         = Inr (a\<lparr>intValues := map_insert (name d) (int_of_long (fst (strtol v))) (intValues a)\<rparr>)"
  using assms by (auto simp: SetValue_def Let_def split: prod.splits)




text \<open>
  \<open>Parse\<close> does not change the definitions, so \<open>IsHelpRequested\<close> after \<open>Parse\<close> is
  decided by the definitions registered before it and by the options activated.
\<close>

lemma IsHelpRequested_after_Parse:
  "IsHelpRequested (accu (snd (Parse F en P))) =
    ((operands (accu P) = [] \<and> optionNames (accu (snd (Parse F en P))) = {}
        \<and> argsByName (accu P) = [])
     \<or> ''help'' \<in> optionNames (accu (snd (Parse F en P))))"
  using Parse_registry [of F en P]
  by (auto simp: IsHelpRequested_def registry_def)

lemma help_option_examples:
  "IsHelpRequested (accu (snd (Parse no_doubles 0
       (projr (help_parser no_doubles [''prog'', ''--help''])))))
   \<and> \<not> IsHelpRequested (accu (snd (Parse no_doubles 0
       (projr (help_parser no_doubles [''prog'', ''-u'', ''me''])))))
   \<and> \<not> IsHelpRequested (accu (snd (Parse no_doubles 0
       (projr (help_parser no_doubles [''prog''])))))"
  by code_simp

text \<open>
  Claim C8. After a successful \<open>Parse\<close>, \<open>IsHelpRequested\<close> should be true exactly when
  no operand and no option was supplied and no definition is registered, or the option
  \<open>help\<close> was activated. The code does not count the operands supplied
  (\<open>operandValues\<close>) but the operand definitions declared (\<open>operands\<close>). A program
  that registers nothing and is given the operand \<open>foo\<close> parses it without a failure,
  holds this operand, has no option \<open>help\<close>, and still asks for help.
\<close>

theorem C8_help_requested_with_operand_supplied:
  "fst (Parse no_doubles 0 (NewParser (map mk_arg [''prog'', ''foo'']))) = None
   \<and> operandValues (accu (snd (Parse no_doubles 0 (NewParser (map mk_arg [''prog'', ''foo''])))))
       = [''foo'']
   \<and> optionNames (accu (snd (Parse no_doubles 0 (NewParser (map mk_arg [''prog'', ''foo''])))))
       = {}
   \<and> argsByName (accu (snd (Parse no_doubles 0 (NewParser (map mk_arg [''prog'', ''foo'']))))) = []
   \<and> IsHelpRequested (accu (snd (Parse no_doubles 0 (NewParser (map mk_arg [''prog'', ''foo'']))))) = True"
  by code_simp

text \<open>
  Claim C9. For a registered argument, \<open>--name value\<close> and \<open>-letter value\<close> should give
  the same value store. This fails where one of the two tokens does not reach the
  definition: a long name that is empty or ends with a non-printable byte (which
  \<open>Trim\<close> cuts off), or a letter that is not printable or is the dash (\<open>--\<close> is a
  syntax error). For every other argument that both maps hold, the two forms give the
  same accumulator and, when the value is rejected, the same error.
\<close>

theorem C9_long_and_short_form_agree:
  assumes "map_of (argsByName (accu P)) n = Some d"
    and "map_of (argsByLetter (accu P)) l = Some d"
    and "argClass d = Argument"
    and "n \<noteq> []" and "NUL \<notin> set n" and "isprint (last n)"
    and "isprint l" and "l \<noteq> CHR ''-''"
  shows "accu (snd (Parse F en (P\<lparr>argv := [p0, mk_arg (''--'' @ n), v]\<rparr>)))
       = accu (snd (Parse F en (P\<lparr>argv := [p0, mk_arg [CHR ''-'', l], v]\<rparr>)))
     \<and> map_option err (fst (Parse F en (P\<lparr>argv := [p0, mk_arg (''--'' @ n), v]\<rparr>)))
       = map_option err (fst (Parse F en (P\<lparr>argv := [p0, mk_arg [CHR ''-'', l], v]\<rparr>)))"
proof -
  from assms(3) have cls: "argClass d \<noteq> Option" by simp
  note long = Trim_long [OF assms(4,5,6)]
  note short = Trim_short [OF assms(7)]
  show ?thesis
    using assms(1,2)
    by (simp add: Parse_def Parse_run_def Let_def long short Parse_token_long [OF assms(4) _ cls]
        Parse_token_short [OF assms(8) _ cls] Parse_token_value
        split: prod.splits sum.splits del: append.simps length_append list.size)
qed

theorem C9_long_and_short_form_witness:
  "accu (snd (Parse no_doubles 0
       ((projr (help_parser no_doubles []))\<lparr>argv := [mk_arg ''prog'', mk_arg (''--'' @ ''user''), mk_arg ''me'']\<rparr>)))
     = accu (snd (Parse no_doubles 0
       ((projr (help_parser no_doubles []))\<lparr>argv := [mk_arg ''prog'', mk_arg [CHR ''-'', CHR ''u''], mk_arg ''me'']\<rparr>)))
   \<and> map_of (stringValues (accu (snd (Parse no_doubles 0
       ((projr (help_parser no_doubles []))\<lparr>argv := [mk_arg ''prog'', mk_arg [CHR ''-'', CHR ''u''], mk_arg ''me'']\<rparr>)))))
       ''user'' = Some ''me''"
proof -
  let ?P = "projr (help_parser no_doubles [])"
  let ?d = "MandatoryArg no_doubles ''user'' CHR ''u'' StringT ''user_name'' ''User name for the database login.''"
  have h1: "map_of (argsByName (accu ?P)) ''user'' = Some ?d"
    by code_simp
  have h2: "map_of (argsByLetter (accu ?P)) CHR ''u'' = Some ?d"
    by code_simp
  have h3: "argClass ?d = Argument"
    by code_simp
  have h4: "''user'' \<noteq> []" "NUL \<notin> set ''user''" "isprint (last ''user'')"
    "isprint CHR ''u''" "CHR ''u'' \<noteq> CHR ''-''"
    by code_simp+
  have v: "map_of (stringValues (accu (snd (Parse no_doubles 0
       (?P\<lparr>argv := [mk_arg ''prog'', mk_arg [CHR ''-'', CHR ''u''], mk_arg ''me'']\<rparr>))))) ''user'' = Some ''me''"
    by code_simp
  from C9_long_and_short_form_agree [OF h1 h2 h3 h4, of no_doubles 0 "mk_arg ''prog''" "mk_arg ''me''"] v
  show ?thesis by blast
qed

theorem C9_dash_letter_counterexample:
  "map_of (argsByName (accu (projr (dash_parser no_doubles [])))) ''stdin'' = Some (dash_arg no_doubles)
   \<and> map_of (argsByLetter (accu (projr (dash_parser no_doubles [])))) CHR ''-'' = Some (dash_arg no_doubles)
   \<and> argClass (dash_arg no_doubles) = Argument
   \<and> fst (Parse no_doubles 0 (projr (dash_parser no_doubles [''prog'', ''--stdin'', ''f'']))) = None
   \<and> map_of (stringValues (accu (snd (Parse no_doubles 0
         (projr (dash_parser no_doubles [''prog'', ''--stdin'', ''f'']))))))
       ''stdin'' = Some ''f''
   \<and> map_option err (fst (Parse no_doubles 0 (projr (dash_parser no_doubles [''prog'', ''--'', ''f'']))))
       = Some SyntaxError
   \<and> map_of (stringValues (accu (snd (Parse no_doubles 0
         (projr (dash_parser no_doubles [''prog'', ''--'', ''f'']))))))
       ''stdin'' = None"
  by code_simp





end
